theory Spec2Isabelle
  imports Main
begin

section \<open>JavaScript values read by the component\<close>

text \<open>
  The component \<^verbatim>\<open>ChatKitPanel\<close> (file \<^verbatim>\<open>components/ChatKitPanel.tsx\<close>) looks at two
  kinds of loosely typed data: the parsed body of the create-session response and the
  parameters of a client tool invocation. Both are JSON-shaped, so one datatype serves.
  A value that may be \<^verbatim>\<open>undefined\<close> is a \<open>json option\<close> with \<open>None\<close> for
  \<^verbatim>\<open>undefined\<close>. An object is the list of its own properties; \<open>map_of\<close> reads it
  (\<^verbatim>\<open>JSON.parse\<close> delivers every key once). Strings are lists of 8-bit characters,
  read as the code units up to U+00FF.

  A number is given by its canonical text, the one \<^verbatim>\<open>Number.prototype.toString\<close>
  prints for it: \<^verbatim>\<open>12\<close>, \<^verbatim>\<open>-3.5\<close>, \<^verbatim>\<open>1e+21\<close>, \<^verbatim>\<open>NaN\<close>, \<^verbatim>\<open>Infinity\<close>, and
  \<^verbatim>\<open>0\<close> for both zeros. The component observes a number in three ways only, by
  \<^verbatim>\<open>typeof\<close>, by its truthiness and by \<^verbatim>\<open>String()\<close>, and the text settles all three:
  the falsy numbers are the zeros and \<^verbatim>\<open>NaN\<close>, and \<^verbatim>\<open>String()\<close> gives the text
  itself. No arithmetic and no rounding is modelled, because the component does none.

  The file holds two revisions of the component. The model follows the current one, which
  has the \<^verbatim>\<open>autoStartText\<close> property; where the earlier one differs in what it computes
  (the detail extraction written inline, the read of \<^verbatim>\<open>client_secret\<close>) it is modelled
  beside it under the suffix \<open>_v1\<close>.
\<close>

datatype json =
    JNull
  | JBool bool
  | JNum string
  | JStr string
  | JArr "json list"
  | JObj "(string \<times> json) list"

datatype js_typeof = T_undefined | T_object | T_boolean | T_number | T_string

text \<open>The operator \<^verbatim>\<open>typeof\<close>: \<^verbatim>\<open>null\<close> and arrays are of type "object".\<close>

fun typeof :: "json option \<Rightarrow> js_typeof" where
  "typeof None = T_undefined"
| "typeof (Some JNull) = T_object"
| "typeof (Some (JBool b)) = T_boolean"
| "typeof (Some (JNum n)) = T_number"
| "typeof (Some (JStr s)) = T_string"
| "typeof (Some (JArr xs)) = T_object"
| "typeof (Some (JObj kvs)) = T_object"

text \<open>Truthiness, as \<^verbatim>\<open>!v\<close>, \<^verbatim>\<open>v && ...\<close> and \<^verbatim>\<open>Boolean(v)\<close> read it.\<close>

fun truthy :: "json option \<Rightarrow> bool" where
  "truthy None = False"
| "truthy (Some JNull) = False"
| "truthy (Some (JBool b)) = b"
| "truthy (Some (JNum n)) = (n \<noteq> ''0'' \<and> n \<noteq> ''NaN'')"
| "truthy (Some (JStr s)) = (s \<noteq> [])"
| "truthy (Some (JArr xs)) = True"
| "truthy (Some (JObj kvs)) = True"

text \<open>
  A property read \<^verbatim>\<open>v.k\<close> on a value that is neither \<^verbatim>\<open>null\<close> nor
  \<^verbatim>\<open>undefined\<close>, for the keys the component reads (\<^verbatim>\<open>error\<close>, \<^verbatim>\<open>details\<close>,
  \<^verbatim>\<open>message\<close>, \<^verbatim>\<open>client_secret\<close>): none of them is a property of a primitive, of an
  array or of \<^verbatim>\<open>Object.prototype\<close>, so only an object's own key gives a value. The
  read that throws on \<^verbatim>\<open>null\<close> is \<open>read_prop\<close> below.
\<close>

fun get_prop :: "json option \<Rightarrow> string \<Rightarrow> json option" where
  "get_prop (Some (JObj kvs)) k = map_of kvs k"
| "get_prop v k = None"

text \<open>The operator \<^verbatim>\<open>k in v\<close>, for the same keys, on a non-null value of type "object".\<close>

fun js_in :: "string \<Rightarrow> json option \<Rightarrow> bool" where
  "js_in k (Some (JObj kvs)) = (k \<in> fst ` set kvs)"
| "js_in k v = False"

text \<open>A value already known to be a string, taken as one.\<close>

fun str_of :: "json option \<Rightarrow> string" where
  "str_of (Some (JStr s)) = s"
| "str_of v = []"

section \<open>Extraction of the failure detail\<close>

text \<open>
  \<^verbatim>\<open>isErrorLikeWithMessage\<close>, \<^verbatim>\<open>isErrorDetailsWithError\<close> and
  \<^verbatim>\<open>extractErrorDetail\<close> of the current revision of the component. The two returns
  inside \<^verbatim>\<open>if (isErrorDetailsWithError(details)) { ... }\<close> are the fourth and fifth
  branch here, each under that test; when neither returns, control falls to the test of
  \<^verbatim>\<open>message\<close>, as in the source.
\<close>

definition isErrorLikeWithMessage :: "json option \<Rightarrow> bool" where
  "isErrorLikeWithMessage v \<longleftrightarrow>
     typeof v = T_object \<and> v \<noteq> Some JNull \<and> js_in ''message'' v \<and>
     typeof (get_prop v ''message'') = T_string"

definition isErrorDetailsWithError :: "json option \<Rightarrow> bool" where
  "isErrorDetailsWithError v \<longleftrightarrow>
     typeof v = T_object \<and> v \<noteq> Some JNull \<and> js_in ''error'' v"

definition extractErrorDetail :: "json option \<Rightarrow> string \<Rightarrow> string" where
  "extractErrorDetail payload fallback =
     (if \<not> truthy payload then fallback
      else
        let error = get_prop payload ''error'';
            details = get_prop payload ''details'';
            message = get_prop payload ''message''
        in
          if typeof error = T_string then str_of error
          else if isErrorLikeWithMessage error then str_of (get_prop error ''message'')
          else if typeof details = T_string then str_of details
          else if isErrorDetailsWithError details \<and>
                  typeof (get_prop details ''error'') = T_string
            then str_of (get_prop details ''error'')
          else if isErrorDetailsWithError details \<and>
                  isErrorLikeWithMessage (get_prop details ''error'')
            then str_of (get_prop (get_prop details ''error'') ''message'')
          else if typeof message = T_string then str_of message
          else fallback)"

text \<open>
  The earlier revision of \<^verbatim>\<open>extractErrorDetail\<close> in the same file, which writes the
  tests inline (\<^verbatim>\<open>error && typeof error === "object" && "message" in error && ...\<close>).
\<close>

definition extractErrorDetail_v1 :: "json option \<Rightarrow> string \<Rightarrow> string" where
  "extractErrorDetail_v1 payload fallback =
     (if \<not> truthy payload then fallback
      else
        let error = get_prop payload ''error'' in
          if typeof error = T_string then str_of error
          else if truthy error \<and> typeof error = T_object \<and> js_in ''message'' error \<and>
                  typeof (get_prop error ''message'') = T_string
            then str_of (get_prop error ''message'')
          else
            let details = get_prop payload ''details'' in
              if typeof details = T_string then str_of details
              else if truthy details \<and> typeof details = T_object \<and> js_in ''error'' details \<and>
                      typeof (get_prop details ''error'') = T_string
                then str_of (get_prop details ''error'')
              else if truthy details \<and> typeof details = T_object \<and> js_in ''error'' details \<and>
                      truthy (get_prop details ''error'') \<and>
                      typeof (get_prop details ''error'') = T_object \<and>
                      js_in ''message'' (get_prop details ''error'') \<and>
                      typeof (get_prop (get_prop details ''error'') ''message'') = T_string
                then str_of (get_prop (get_prop details ''error'') ''message'')
              else if typeof (get_prop payload ''message'') = T_string
                then str_of (get_prop payload ''message'')
              else fallback)"

subsection \<open>The fallback order in the specification's words\<close>

text \<open>
  The specification lists six sources, first match wins: (1) the payload's \<^verbatim>\<open>error\<close>
  field if it is a string; (2) that field if it is an object with a string
  \<^verbatim>\<open>message\<close>; (3) the \<^verbatim>\<open>details\<close> field if it is a string; (4) within an object
  \<^verbatim>\<open>details\<close>, its \<^verbatim>\<open>error\<close> by the same string-or-message rule; (5) the top-level
  \<^verbatim>\<open>message\<close> if it is a string; (6) the status text. The definitions below follow
  that list, not the code.
\<close>

fun spec_field :: "json option \<Rightarrow> string \<Rightarrow> json option" where
  "spec_field (Some (JObj kvs)) k = map_of kvs k"
| "spec_field v k = None"

fun spec_string :: "json option \<Rightarrow> string option" where
  "spec_string (Some (JStr s)) = Some s"
| "spec_string v = None"

fun spec_object_message :: "json option \<Rightarrow> string option" where
  "spec_object_message (Some (JObj kvs)) = spec_string (map_of kvs ''message'')"
| "spec_object_message v = None"

fun first_match :: "'a option list \<Rightarrow> 'a option" where
  "first_match [] = None"
| "first_match (Some x # cs) = Some x"
| "first_match (None # cs) = first_match cs"

definition spec_error_detail :: "json option \<Rightarrow> string \<Rightarrow> string" where
  "spec_error_detail payload statusText =
     (case first_match
        [spec_string (spec_field payload ''error''),
         spec_object_message (spec_field payload ''error''),
         spec_string (spec_field payload ''details''),
         spec_string (spec_field (spec_field payload ''details'') ''error''),
         spec_object_message (spec_field (spec_field payload ''details'') ''error''),
         spec_string (spec_field payload ''message'')]
      of Some s \<Rightarrow> s | None \<Rightarrow> statusText)"

section \<open>String coercion and whitespace\<close>

text \<open>
  \<^verbatim>\<open>String(v)\<close> on a JSON-shaped value: a string is itself, a number gives its
  canonical text (exponent notation included, since the text is the number here), an
  array joins its elements with commas (a \<^verbatim>\<open>null\<close> element prints as the empty
  string), an object prints as \<^verbatim>\<open>[object Object]\<close>.
\<close>

fun join :: "string \<Rightarrow> string list \<Rightarrow> string" where
  "join sep [] = []"
| "join sep [x] = x"
| "join sep (x # y # ys) = x @ sep @ join sep (y # ys)"

fun js_String :: "json \<Rightarrow> string" where
  "js_String JNull = ''null''"
| "js_String (JBool b) = (if b then ''true'' else ''false'')"
| "js_String (JNum n) = n"
| "js_String (JStr s) = s"
| "js_String (JArr xs) = join '','' (map (\<lambda>x. if x = JNull then [] else js_String x) xs)"
| "js_String (JObj kvs) = ''[object Object]''"

text \<open>The operator \<^verbatim>\<open>a ?? b\<close>: \<open>b\<close> when \<open>a\<close> is \<^verbatim>\<open>null\<close> or \<^verbatim>\<open>undefined\<close>.\<close>

fun nullish :: "json option \<Rightarrow> json \<Rightarrow> json" where
  "nullish None d = d"
| "nullish (Some JNull) d = d"
| "nullish (Some v) d = v"

text \<open>
  The class \<^verbatim>\<open>\s\<close> of a regular expression, and the characters \<^verbatim>\<open>trim\<close> strips,
  among the code units up to U+00FF: tab, line feed, vertical tab, form feed, carriage
  return, space and the no-break space.
\<close>

definition is_ws :: "char \<Rightarrow> bool" where
  "is_ws ch \<longleftrightarrow> (of_char ch :: nat) \<in> {9, 10, 11, 12, 13, 32, 160}"

text \<open>\<^verbatim>\<open>s.replace(/\s+/g, " ")\<close>: every maximal run of whitespace becomes one space.\<close>

function replace_ws :: "string \<Rightarrow> string" where
  "replace_ws [] = []"
| "replace_ws (ch # cs) =
     (if is_ws ch then CHR '' '' # replace_ws (dropWhile is_ws cs)
      else ch # replace_ws cs)"
  by pat_completeness auto
termination
  by (relation "measure length") (auto intro: le_imp_less_Suc length_dropWhile_le)

definition trim :: "string \<Rightarrow> string" where
  "trim s = rev (dropWhile is_ws (rev (dropWhile is_ws s)))"

section \<open>Controller state, environment and effects\<close>

text \<open>
  The state of one \<^verbatim>\<open>ChatKitPanel\<close>: the three refs
  (\<^verbatim>\<open>processedFacts\<close>, \<^verbatim>\<open>isMountedRef\<close>, \<^verbatim>\<open>hasAutoStartedRef\<close>) and the three
  pieces of React state (\<^verbatim>\<open>errors.message\<close>, \<^verbatim>\<open>isInitializingSession\<close>,
  \<^verbatim>\<open>widgetInstanceKey\<close>). The key is the widget generation: a counter that starts at
  0 and only ever grows by one per reset. It is a natural number here; as a JavaScript
  number it counts exactly up to 2 to the power 53, beyond any number of resets a page
  can see. The field \<open>isMounted\<close> is the value of \<^verbatim>\<open>isMountedRef.current\<close>: true from
  the start, false once the cleanup of the mount effect has run, and never set back by
  the component. Where the text below says mounted or unmounted, it means this ref.
\<close>

record controller =
  processedFacts :: "string set"
  errors_message :: "string option"
  isInitializingSession :: bool
  widgetInstanceKey :: nat
  isMounted :: bool
  hasAutoStarted :: bool

definition createInitialErrors :: "string option" where
  "createInitialErrors = None"

definition initial_controller :: controller where
  "initial_controller =
     \<lparr> processedFacts = {}, errors_message = createInitialErrors,
       isInitializingSession = True, widgetInstanceKey = 0,
       isMounted = True, hasAutoStarted = False \<rparr>"

text \<open>
  What the component imports or gets from the runtime: the constants of
  \<^verbatim>\<open>@/lib/config\<close> (not part of the sources at hand, so parameters here; an unset
  workflow identifier is \<open>None\<close>), the development flag \<^verbatim>\<open>isDev\<close>, and the message
  text the JavaScript engine gives the \<^verbatim>\<open>TypeError\<close> it raises when a property of
  \<^verbatim>\<open>null\<close> is read.
\<close>

record env =
  isDev :: bool
  WORKFLOW_ID :: "string option"
  CREATE_SESSION_ENDPOINT :: string
  nullReadMessage :: string

text \<open>
  Everything the component does to the outside is an effect, listed in the order it
  happens: a console line (its level and label), the POST to the create-session endpoint
  (the endpoint and the workflow identifier of its body), and the calls of the host's
  callbacks \<^verbatim>\<open>onThemeRequest\<close>, \<^verbatim>\<open>onWidgetAction\<close>, \<^verbatim>\<open>onResponseEnd\<close> and of the
  widget's \<^verbatim>\<open>sendUserMessage\<close> (its text and \<^verbatim>\<open>newThread\<close> flag).
\<close>

record factAction =
  factId :: string
  factText :: string

datatype log_level = L_info | L_debug | L_error

datatype effect =
    Console log_level string
  | Fetch string "string option"
  | ThemeRequest string
  | WidgetAction factAction
  | ResponseEnd
  | SendUserMessage string bool

text \<open>Thrown values: \<^verbatim>\<open>new Error(m)\<close>, a \<^verbatim>\<open>TypeError\<close>, or a value that is no \<^verbatim>\<open>Error\<close>.\<close>

datatype thrown = JsError string | JsTypeError string | NonError

fun instanceof_Error :: "thrown \<Rightarrow> bool" where
  "instanceof_Error (JsError m) = True"
| "instanceof_Error (JsTypeError m) = True"
| "instanceof_Error NonError = False"

fun message_of :: "thrown \<Rightarrow> string" where
  "message_of (JsError m) = m"
| "message_of (JsTypeError m) = m"
| "message_of NonError = []"

text \<open>
  What the network gives back. The body is the text \<^verbatim>\<open>raw\<close> as the code reads it:
  empty, not parseable by \<^verbatim>\<open>JSON.parse\<close>, or parsed to a value. A rejected
  \<^verbatim>\<open>fetch\<close> or \<^verbatim>\<open>response.text()\<close> carries the value thrown.
\<close>

datatype raw_body = EmptyBody | Unparseable | Parsed json

record response =
  ok :: bool
  status :: nat
  statusText :: string
  raw :: raw_body

datatype fetch_outcome = Rejected thrown | Responded response

section \<open>The handlers\<close>

definition setErrorMessage :: "string option \<Rightarrow> controller \<Rightarrow> controller" where
  "setErrorMessage message c = c\<lparr>errors_message := message\<rparr>"

definition setIsInitializingSession :: "bool \<Rightarrow> controller \<Rightarrow> controller" where
  "setIsInitializingSession b c = c\<lparr>isInitializingSession := b\<rparr>"

definition handleResetChat :: "controller \<Rightarrow> controller" where
  "handleResetChat c =
     c\<lparr> processedFacts := {},
        hasAutoStarted := False,
        isInitializingSession := True,
        errors_message := createInitialErrors,
        widgetInstanceKey := widgetInstanceKey c + 1 \<rparr>"

definition startsWith :: "string \<Rightarrow> string \<Rightarrow> bool" where
  "startsWith s p \<longleftrightarrow> take (length p) s = p"

definition isWorkflowConfigured :: "env \<Rightarrow> bool" where
  "isWorkflowConfigured e =
     (case WORKFLOW_ID e of
        None \<Rightarrow> False
      | Some w \<Rightarrow> w \<noteq> [] \<and> \<not> startsWith w ''wf_replace'')"

text \<open>\<^verbatim>\<open>!currentSecret\<close> for \<^verbatim>\<open>currentSecret: string | null\<close>.\<close>

fun no_secret :: "string option \<Rightarrow> bool" where
  "no_secret None = True"
| "no_secret (Some s) = (s = [])"

subsection \<open>getClientSecret\<close>

text \<open>
  \<^verbatim>\<open>getClientSecret\<close> is an asynchronous function that suspends once, on the network.
  It is modelled in the two parts the event loop runs: \<open>getClientSecret_begin\<close> is the
  code up to and including the call of \<^verbatim>\<open>fetch\<close>, \<open>getClientSecret_resume\<close> the code
  after the response (or the rejection) has arrived, on the state the controller has
  by then. A call that fails the configuration check throws before any request.
\<close>

datatype begin_result = Failed thrown | Awaiting

definition getClientSecret_begin ::
  "env \<Rightarrow> string option \<Rightarrow> controller \<Rightarrow> begin_result \<times> effect list \<times> controller" where
  "getClientSecret_begin e currentSecret c =
     (let logged = (if isDev e then [Console L_info ''[ChatKitPanel] getClientSecret invoked'']
                    else [])
      in
        if \<not> isWorkflowConfigured e then
          let detail = ''Set NEXT_PUBLIC_CHATKIT_WORKFLOW_ID in your .env.local file.'';
              c1 = (if isMounted c
                    then setIsInitializingSession False (setErrorMessage (Some detail) c)
                    else c)
          in (Failed (JsError detail), logged, c1)
        else
          let c1 = (if isMounted c
                    then setErrorMessage None
                           (if no_secret currentSecret then setIsInitializingSession True c
                            else c)
                    else c)
          in (Awaiting, logged @ [Fetch (CREATE_SESSION_ENDPOINT e) (WORKFLOW_ID e)], c1))"

text \<open>
  \<^verbatim>\<open>let data = {}; if (raw) { try { data = JSON.parse(raw) } catch { console.error(...) } }\<close>
\<close>

definition session_data :: "raw_body \<Rightarrow> json \<times> effect list" where
  "session_data body =
     (case body of
        EmptyBody \<Rightarrow> (JObj [], [])
      | Unparseable \<Rightarrow> (JObj [], [Console L_error ''Failed to parse create-session response''])
      | Parsed v \<Rightarrow> (v, []))"

text \<open>
  The read \<^verbatim>\<open>data.client_secret\<close> of the current revision throws a
  \<^verbatim>\<open>TypeError\<close> when \<^verbatim>\<open>data\<close> is \<^verbatim>\<open>null\<close>; the read
  \<^verbatim>\<open>data?.client_secret\<close> of the earlier revision gives \<^verbatim>\<open>undefined\<close> there.
\<close>

fun read_prop :: "string \<Rightarrow> json \<Rightarrow> string \<Rightarrow> thrown + json option" where
  "read_prop m JNull k = Inl (JsTypeError m)"
| "read_prop m v k = Inr (get_prop (Some v) k)"

fun read_prop_optional :: "json \<Rightarrow> string \<Rightarrow> json option" where
  "read_prop_optional JNull k = None"
| "read_prop_optional v k = get_prop (Some v) k"

text \<open>The body of the \<^verbatim>\<open>try\<close> block, from the settled \<^verbatim>\<open>fetch\<close> on.\<close>

definition try_block ::
  "env \<Rightarrow> fetch_outcome \<Rightarrow> controller \<Rightarrow> (thrown + json option) \<times> effect list \<times> controller" where
  "try_block e net c =
     (case net of
        Rejected t \<Rightarrow> (Inl t, [], c)
      | Responded r \<Rightarrow>
          let logged = (if isDev e then [Console L_info ''[ChatKitPanel] createSession response'']
                        else []);
              (data, parse_log) = session_data (raw r)
          in
            if \<not> ok r then
              let detail = extractErrorDetail (Some data) (statusText r)
              in (Inl (JsError detail),
                  logged @ parse_log @ [Console L_error ''Create session request failed''], c)
            else
              (case read_prop (nullReadMessage e) data ''client_secret'' of
                 Inl t \<Rightarrow> (Inl t, logged @ parse_log, c)
               | Inr clientSecret \<Rightarrow>
                   if \<not> truthy clientSecret then
                     (Inl (JsError ''Missing client secret in response''), logged @ parse_log, c)
                   else
                     (Inr clientSecret, logged @ parse_log,
                      if isMounted c then setErrorMessage None c else c)))"

definition try_block_v1 ::
  "env \<Rightarrow> fetch_outcome \<Rightarrow> controller \<Rightarrow> (thrown + json option) \<times> effect list \<times> controller" where
  "try_block_v1 e net c =
     (case net of
        Rejected t \<Rightarrow> (Inl t, [], c)
      | Responded r \<Rightarrow>
          let logged = (if isDev e then [Console L_info ''[ChatKitPanel] createSession response'']
                        else []);
              (data, parse_log) = session_data (raw r)
          in
            if \<not> ok r then
              let detail = extractErrorDetail_v1 (Some data) (statusText r)
              in (Inl (JsError detail),
                  logged @ parse_log @ [Console L_error ''Create session request failed''], c)
            else
              let clientSecret = read_prop_optional data ''client_secret''
              in
                if \<not> truthy clientSecret then
                  (Inl (JsError ''Missing client secret in response''), logged @ parse_log, c)
                else
                  (Inr clientSecret, logged @ parse_log,
                   if isMounted c then setErrorMessage None c else c))"

text \<open>The \<^verbatim>\<open>catch\<close> block: it records the detail and throws the error on.\<close>

definition catch_block :: "thrown \<Rightarrow> controller \<Rightarrow> thrown \<times> effect list \<times> controller" where
  "catch_block error c =
     (let detail = (if instanceof_Error error then message_of error
                    else ''Unable to start ChatKit session.'');
          c1 = (if isMounted c then setErrorMessage (Some detail) c else c)
      in (if instanceof_Error error then error else JsError detail,
          [Console L_error ''Failed to create ChatKit session''], c1))"

text \<open>The \<^verbatim>\<open>finally\<close> block.\<close>

definition finally_block :: "string option \<Rightarrow> controller \<Rightarrow> controller" where
  "finally_block currentSecret c =
     (if isMounted c \<and> no_secret currentSecret then setIsInitializingSession False c else c)"

definition try_catch_finally ::
  "(thrown + json option) \<times> effect list \<times> controller \<Rightarrow> string option \<Rightarrow>
   (thrown + json option) \<times> effect list \<times> controller" where
  "try_catch_finally tried currentSecret =
     (case tried of
        (Inr secret, fx, c1) \<Rightarrow> (Inr secret, fx, finally_block currentSecret c1)
      | (Inl error, fx, c1) \<Rightarrow>
          (case catch_block error c1 of
             (rethrown, fx2, c2) \<Rightarrow> (Inl rethrown, fx @ fx2, finally_block currentSecret c2)))"

definition getClientSecret_resume ::
  "env \<Rightarrow> string option \<Rightarrow> fetch_outcome \<Rightarrow> controller \<Rightarrow>
   (thrown + json option) \<times> effect list \<times> controller" where
  "getClientSecret_resume e currentSecret net c =
     try_catch_finally (try_block e net c) currentSecret"

definition getClientSecret_resume_v1 ::
  "env \<Rightarrow> string option \<Rightarrow> fetch_outcome \<Rightarrow> controller \<Rightarrow>
   (thrown + json option) \<times> effect list \<times> controller" where
  "getClientSecret_resume_v1 e currentSecret net c =
     try_catch_finally (try_block_v1 e net c) currentSecret"

text \<open>
  One whole call with nothing else happening while the request is in flight: the
  result (\<open>Inl\<close> what it throws, \<open>Inr\<close> what it returns), the effects, the state.
\<close>

definition getClientSecret ::
  "env \<Rightarrow> string option \<Rightarrow> fetch_outcome \<Rightarrow> controller \<Rightarrow>
   (thrown + json option) \<times> effect list \<times> controller" where
  "getClientSecret e currentSecret net c =
     (case getClientSecret_begin e currentSecret c of
        (Failed t, fx, c1) \<Rightarrow> (Inl t, fx, c1)
      | (Awaiting, fx, c1) \<Rightarrow>
          (case getClientSecret_resume e currentSecret net c1 of
             (res, fx2, c2) \<Rightarrow> (res, fx @ fx2, c2)))"

subsection \<open>The callbacks handed to the widget\<close>

record invocation =
  name :: string
  params :: "(string \<times> json) list"

text \<open>
  \<^verbatim>\<open>onClientTool\<close> has no \<^verbatim>\<open>await\<close>: one invocation runs to its end before anything
  else does. The handler \<^verbatim>\<open>onWidgetAction\<close> is called and not awaited
  (\<^verbatim>\<open>void onWidgetAction(...)\<close>), so its call is an effect and the settling of its
  promise is nothing the controller sees. The identifier goes into \<^verbatim>\<open>processedFacts\<close>
  first (the state \<open>c1\<close>), the handler is called in that state. The result is the
  \<^verbatim>\<open>success\<close> flag.
\<close>

definition onClientTool ::
  "env \<Rightarrow> invocation \<Rightarrow> controller \<Rightarrow> bool \<times> effect list \<times> controller" where
  "onClientTool e invoc c =
     (if name invoc = ''switch_theme'' then
        let requested = map_of (params invoc) ''theme'' in
          if requested = Some (JStr ''light'') \<or> requested = Some (JStr ''dark'') then
            (True,
             (if isDev e then [Console L_debug ''[ChatKitPanel] switch_theme''] else []) @
             [ThemeRequest (str_of requested)],
             c)
          else (False, [], c)
      else if name invoc = ''record_fact'' then
        let fact_id = js_String (nullish (map_of (params invoc) ''fact_id'') (JStr []));
            fact_text = js_String (nullish (map_of (params invoc) ''fact_text'') (JStr []))
        in
          if fact_id = [] \<or> fact_id \<in> processedFacts c then (True, [], c)
          else
            let c1 = c\<lparr>processedFacts := insert fact_id (processedFacts c)\<rparr> in
              (True,
               [WidgetAction \<lparr> factId = fact_id, factText = trim (replace_ws fact_text) \<rparr>],
               c1)
      else (False, [], c))"

definition onResponseEnd :: "controller \<Rightarrow> effect list \<times> controller" where
  "onResponseEnd c = ([ResponseEnd], c)"

definition onResponseStart :: "controller \<Rightarrow> effect list \<times> controller" where
  "onResponseStart c = ([], setErrorMessage None c)"

definition onThreadChange :: "controller \<Rightarrow> effect list \<times> controller" where
  "onThreadChange c = ([], c\<lparr>processedFacts := {}, hasAutoStarted := False\<rparr>)"

text \<open>\<^verbatim>\<open>onError\<close>: whatever the widget reports, the handler writes one console line.\<close>

definition onError :: "'e \<Rightarrow> controller \<Rightarrow> effect list \<times> controller" where
  "onError error c = ([Console L_error ''ChatKit error''], c)"

subsection \<open>The effects of the component\<close>

text \<open>The cleanup of the mount effect: \<^verbatim>\<open>isMountedRef.current = false\<close>.\<close>

definition unmount :: "controller \<Rightarrow> controller" where
  "unmount c = c\<lparr>isMounted := False\<rparr>"

text \<open>
  The auto-start effect, run by React whenever one of \<^verbatim>\<open>control\<close>,
  \<^verbatim>\<open>sendUserMessage\<close>, \<^verbatim>\<open>autoStartText\<close> changes. The first two arguments say
  whether \<^verbatim>\<open>control\<close> and \<^verbatim>\<open>sendUserMessage\<close> are there. The send is asynchronous:
  \<open>autoStart_effect\<close> is the code up to the call of \<^verbatim>\<open>sendUserMessage\<close>,
  \<open>autoStart_rejected\<close> the \<^verbatim>\<open>catch\<close> block that runs if the send fails; a send that
  succeeds runs no more code.
\<close>

definition autoStart_effect ::
  "bool \<Rightarrow> bool \<Rightarrow> string option \<Rightarrow> controller \<Rightarrow> effect list \<times> controller" where
  "autoStart_effect control sendUserMessage autoStartText c =
     (case autoStartText of
        None \<Rightarrow> ([], c)
      | Some txt \<Rightarrow>
          if \<not> control \<or> \<not> sendUserMessage \<or> txt = [] then ([], c)
          else if hasAutoStarted c then ([], c)
          else ([SendUserMessage txt True], c\<lparr>hasAutoStarted := True\<rparr>))"

definition autoStart_rejected :: "controller \<Rightarrow> effect list \<times> controller" where
  "autoStart_rejected c =
     ([Console L_error ''Failed to send auto-start message''],
      setErrorMessage
        (Some ''Connected, but failed to send the initial message. You can type manually.'') c)"

text \<open>What the page shows: the retry button is offered when \<^verbatim>\<open>hasError\<close> holds.\<close>

definition hasError :: "controller \<Rightarrow> bool" where
  "hasError c \<longleftrightarrow> (case errors_message c of None \<Rightarrow> False | Some m \<Rightarrow> m \<noteq> [])"



section \<open>Runs of the controller\<close>

text \<open>
  Everything happens on the user-interface thread, one event at a time. An event is a
  call of one of the handlers above by the widget, by React or by the user.
\<close>

datatype event =
    SecretRequested "string option"
  | SecretSettled "string option" fetch_outcome
  | ClientTool invocation
  | ResponseStarted
  | ResponseEnded
  | ThreadChanged
  | WidgetError thrown
  | RetryClicked
  | AutoStartRun bool bool "string option"
  | AutoStartRejected
  | Unmounted

fun step :: "env \<Rightarrow> event \<Rightarrow> controller \<Rightarrow> effect list \<times> controller" where
  "step e (SecretRequested cur) c = snd (getClientSecret_begin e cur c)"
| "step e (SecretSettled cur net) c = snd (getClientSecret_resume e cur net c)"
| "step e (ClientTool invoc) c = snd (onClientTool e invoc c)"
| "step e ResponseStarted c = onResponseStart c"
| "step e ResponseEnded c = onResponseEnd c"
| "step e ThreadChanged c = onThreadChange c"
| "step e (WidgetError err) c = onError err c"
| "step e RetryClicked c = ([], handleResetChat c)"
| "step e (AutoStartRun control send txt) c = autoStart_effect control send txt c"
| "step e AutoStartRejected c = autoStart_rejected c"
| "step e Unmounted c = ([], unmount c)"

fun run :: "env \<Rightarrow> event list \<Rightarrow> controller \<Rightarrow> effect list \<times> controller" where
  "run e [] c = ([], c)"
| "run e (ev # evs) c =
     (case step e ev c of
        (fx, c1) \<Rightarrow> (case run e evs c1 of (fx2, c2) \<Rightarrow> (fx @ fx2, c2)))"

text \<open>The handler calls and the automatic sends among a list of effects.\<close>

fun widget_actions :: "effect list \<Rightarrow> factAction list" where
  "widget_actions [] = []"
| "widget_actions (WidgetAction a # fx) = a # widget_actions fx"
| "widget_actions (x # fx) = widget_actions fx"

fun theme_requests :: "effect list \<Rightarrow> string list" where
  "theme_requests [] = []"
| "theme_requests (ThemeRequest s # fx) = s # theme_requests fx"
| "theme_requests (x # fx) = theme_requests fx"

fun sent_messages :: "effect list \<Rightarrow> string list" where
  "sent_messages [] = []"
| "sent_messages (SendUserMessage s b # fx) = s # sent_messages fx"
| "sent_messages (x # fx) = sent_messages fx"

fun fetches :: "effect list \<Rightarrow> effect list" where
  "fetches [] = []"
| "fetches (Fetch u w # fx) = Fetch u w # fetches fx"
| "fetches (x # fx) = fetches fx"

text \<open>A thread lifetime: a run with no thread change and no reset in it.\<close>

fun clears_guards :: "event \<Rightarrow> bool" where
  "clears_guards ThreadChanged = True"
| "clears_guards RetryClicked = True"
| "clears_guards ev = False"

definition thread_lifetime :: "event list \<Rightarrow> bool" where
  "thread_lifetime evs \<longleftrightarrow> list_all (\<lambda>ev. \<not> clears_guards ev) evs"

text \<open>
  A run of the auto-start effect is ready when \<^verbatim>\<open>control\<close> and
  \<^verbatim>\<open>sendUserMessage\<close> are there and the start text is not empty. A quiet run has no
  thread change, no reset and no ready run of the effect in it; every other event may
  occur in it, runs of the effect that are not ready included.
\<close>

fun ready_run :: "event \<Rightarrow> bool" where
  "ready_run (AutoStartRun control sender (Some start)) = (control \<and> sender \<and> start \<noteq> [])"
| "ready_run ev = False"

definition quiet :: "event list \<Rightarrow> bool" where
  "quiet evs \<longleftrightarrow> list_all (\<lambda>ev. \<not> clears_guards ev \<and> \<not> ready_run ev) evs"

text \<open>
  The same run with every effect tagged by the widget generation
  (\<^verbatim>\<open>widgetInstanceKey\<close>) in which it happens, and the automatic sends of one
  generation.
\<close>

fun run_keyed :: "env \<Rightarrow> event list \<Rightarrow> controller \<Rightarrow> (nat \<times> effect) list" where
  "run_keyed e [] c = []"
| "run_keyed e (ev # evs) c =
     (case step e ev c of
        (fx, c1) \<Rightarrow> map (Pair (widgetInstanceKey c)) fx @ run_keyed e evs c1)"

definition sends_in_generation :: "nat \<Rightarrow> (nat \<times> effect) list \<Rightarrow> string list" where
  "sends_in_generation g kfx = sent_messages (map snd (filter (\<lambda>kx. fst kx = g) kfx))"

section \<open>Concrete inputs\<close>

definition example_env :: env where
  "example_env =
     \<lparr> isDev = False, WORKFLOW_ID = Some ''wf_68e5'',
       CREATE_SESSION_ENDPOINT = ''/api/create-session'',
       nullReadMessage = ''Cannot read properties of null (reading 'client_secret')'' \<rparr>"

definition placeholder_env :: env where
  "placeholder_env = example_env\<lparr>WORKFLOW_ID := Some ''wf_replace_with_your_workflow_id''\<rparr>"

definition record_f1 :: invocation where
  "record_f1 =
     \<lparr> name = ''record_fact'',
       params = [(''fact_id'', JStr ''f1''), (''fact_text'', JStr ''  likes   tea '')] \<rparr>"

definition response_500 :: response where
  "response_500 =
     \<lparr> ok = False, status = 500, statusText = ''Internal Server Error'',
       raw = Parsed (JObj [(''details'', JObj [(''error'', JObj [(''message'', JStr ''X'')])])]) \<rparr>"

definition response_200_empty :: response where
  "response_200_empty = \<lparr> ok = True, status = 200, statusText = ''OK'', raw = Parsed (JObj []) \<rparr>"

definition response_200_null :: response where
  "response_200_null = \<lparr> ok = True, status = 200, statusText = ''OK'', raw = Parsed JNull \<rparr>"

section \<open>Auxiliary predicates\<close>

text \<open>
  A list of effects that are console lines only, a list of effects that are console lines
  or network requests only (so no callback of the host and no send is among them), and
  two states that agree on the three refs and on the widget generation.
\<close>

fun is_console :: "effect \<Rightarrow> bool" where
  "is_console (Console l s) = True"
| "is_console x = False"

definition only_console :: "effect list \<Rightarrow> bool" where
  "only_console fx \<longleftrightarrow> list_all is_console fx"

fun is_fetch :: "effect \<Rightarrow> bool" where
  "is_fetch (Fetch u w) = True"
| "is_fetch x = False"

definition only_console_or_fetch :: "effect list \<Rightarrow> bool" where
  "only_console_or_fetch fx \<longleftrightarrow> list_all (\<lambda>x. is_console x \<or> is_fetch x) fx"

definition same_refs :: "controller \<Rightarrow> controller \<Rightarrow> bool" where
  "same_refs c c' \<longleftrightarrow>
     processedFacts c' = processedFacts c \<and> widgetInstanceKey c' = widgetInstanceKey c \<and>
     isMounted c' = isMounted c \<and> hasAutoStarted c' = hasAutoStarted c"

section \<open>The detail extraction follows the specified order\<close>

lemma typeof_string_iff: "typeof v = T_string \<longleftrightarrow> (\<exists>s. v = Some (JStr s))"
  by (cases v rule: typeof.cases) auto

lemma spec_string_typeof:
  "spec_string v = (if typeof v = T_string then Some (str_of v) else None)"
  by (cases v rule: typeof.cases) auto

lemma spec_field_get_prop: "spec_field v k = get_prop v k"
  by (cases v rule: typeof.cases) auto

lemma map_of_in_fst: "map_of kvs k = Some x \<Longrightarrow> k \<in> fst ` set kvs"
  by (metis map_of_eq_None_iff option.distinct(1))

lemma spec_object_message_code:
  "spec_object_message v =
     (if isErrorLikeWithMessage v then Some (str_of (get_prop v ''message'')) else None)"
proof (cases v rule: typeof.cases)
  case (7 kvs)
  show ?thesis
  proof (cases "map_of kvs ''message''")
    case None
    with 7 show ?thesis by (simp add: isErrorLikeWithMessage_def)
  next
    case (Some x)
    with 7 show ?thesis
      by (cases "Some x" rule: typeof.cases)
         (auto simp: isErrorLikeWithMessage_def dest: map_of_in_fst)
  qed
qed (simp_all add: isErrorLikeWithMessage_def)

lemma details_error_guard:
  "get_prop details ''error'' \<noteq> None \<Longrightarrow> isErrorDetailsWithError details"
  by (cases details rule: typeof.cases)
     (auto simp: isErrorDetailsWithError_def dest: map_of_in_fst)

lemma typeof_string_not_None: "typeof v = T_string \<Longrightarrow> v \<noteq> None"
  by (cases v) auto

lemma errlike_not_None: "isErrorLikeWithMessage v \<Longrightarrow> v \<noteq> None"
  by (cases v) (auto simp: isErrorLikeWithMessage_def)

lemma falsy_no_fields: "\<not> truthy payload \<Longrightarrow> get_prop payload k = None"
  by (cases payload rule: typeof.cases) auto

lemma details_string_guard:
  "(isErrorDetailsWithError details \<and> typeof (get_prop details ''error'') = T_string) =
   (typeof (get_prop details ''error'') = T_string)"
  using details_error_guard typeof_string_not_None by blast

lemma details_errlike_guard:
  "(isErrorDetailsWithError details \<and> isErrorLikeWithMessage (get_prop details ''error'')) =
   isErrorLikeWithMessage (get_prop details ''error'')"
  using details_error_guard errlike_not_None by blast

lemma extractErrorDetail_refines:
  "extractErrorDetail payload st = spec_error_detail payload st"
proof (cases "truthy payload")
  case False
  then show ?thesis
    by (simp add: extractErrorDetail_def spec_error_detail_def spec_field_get_prop
        falsy_no_fields)
next
  case True
  then show ?thesis
    by (simp add: extractErrorDetail_def spec_error_detail_def spec_field_get_prop
        spec_string_typeof spec_object_message_code Let_def
        details_string_guard details_errlike_guard)
qed

lemma extractErrorDetail_v1_eq:
  "extractErrorDetail_v1 payload fallback = extractErrorDetail payload fallback"
proof -
  have t: "typeof v = T_object \<and> truthy v \<longleftrightarrow> typeof v = T_object \<and> v \<noteq> Some JNull" for v
    by (cases v rule: typeof.cases) auto
  have e: "isErrorLikeWithMessage v \<longleftrightarrow>
      truthy v \<and> typeof v = T_object \<and> js_in ''message'' v \<and>
      typeof (get_prop v ''message'') = T_string" for v
    using t[of v] by (auto simp: isErrorLikeWithMessage_def)
  have d: "isErrorDetailsWithError v \<longleftrightarrow> truthy v \<and> typeof v = T_object \<and> js_in ''error'' v" for v
    using t[of v] by (auto simp: isErrorDetailsWithError_def)
  show ?thesis
    unfolding extractErrorDetail_v1_def extractErrorDetail_def Let_def e d
    by auto
qed

section \<open>What getClientSecret leaves alone\<close>

lemma only_console_append [simp]:
  "only_console (xs @ ys) \<longleftrightarrow> only_console xs \<and> only_console ys"
  by (simp add: only_console_def)

lemma only_console_simps [simp]:
  "only_console []" "only_console (x # xs) \<longleftrightarrow> is_console x \<and> only_console xs"
  by (simp_all add: only_console_def)

lemma only_console_silent:
  "only_console fx \<Longrightarrow>
     widget_actions fx = [] \<and> theme_requests fx = [] \<and> sent_messages fx = [] \<and> fetches fx = []"
  by (induction fx rule: widget_actions.induct) simp_all

lemma same_refs_refl [simp]: "same_refs c c"
  by (simp add: same_refs_def)

lemma same_refs_set [simp]:
  "same_refs c (setErrorMessage m c')  \<longleftrightarrow> same_refs c c'"
  "same_refs c (setIsInitializingSession b c') \<longleftrightarrow> same_refs c c'"
  by (simp_all add: same_refs_def setErrorMessage_def setIsInitializingSession_def)

lemma isMounted_set [simp]:
  "isMounted (setErrorMessage m c) = isMounted c"
  "isMounted (setIsInitializingSession b c) = isMounted c"
  by (simp_all add: setErrorMessage_def setIsInitializingSession_def)

lemma session_data_console: "only_console (snd (session_data body))"
  by (cases body) (simp_all add: session_data_def)

lemma try_block_frame:
  assumes "try_block e net c = (res, fx, c')"
  shows "only_console fx \<and> same_refs c c' \<and> (\<not> isMounted c \<longrightarrow> c' = c)"
proof (cases net)
  case (Rejected t)
  with assms show ?thesis by (simp add: try_block_def)
next
  case (Responded r)
  obtain data plog where sd: "session_data (raw r) = (data, plog)"
    by (cases "session_data (raw r)")
  have pl: "only_console plog"
    using session_data_console[of "raw r"] sd by simp
  from assms Responded sd pl show ?thesis
    by (auto simp: try_block_def Let_def split: if_splits sum.splits)
qed

lemma catch_block_frame:
  assumes "catch_block err c = (res, fx, c')"
  shows "only_console fx \<and> same_refs c c' \<and> (\<not> isMounted c \<longrightarrow> c' = c)"
  using assms by (auto simp: catch_block_def Let_def split: if_splits)

lemma finally_block_frame:
  "same_refs c (finally_block cur c) \<and> (\<not> isMounted c \<longrightarrow> finally_block cur c = c)"
  by (simp add: finally_block_def)

lemma same_refs_trans: "same_refs a b \<Longrightarrow> same_refs b c \<Longrightarrow> same_refs a c"
  by (simp add: same_refs_def)

lemma try_catch_finally_frame:
  assumes t: "only_console (fst (snd tried)) \<and> same_refs c (snd (snd tried)) \<and>
              (\<not> isMounted c \<longrightarrow> snd (snd tried) = c)"
    and r: "try_catch_finally tried cur = (res, fx, c')"
  shows "only_console fx \<and> same_refs c c' \<and> (\<not> isMounted c \<longrightarrow> c' = c)"
proof -
  obtain r0 fx0 c0 where tr: "tried = (r0, fx0, c0)" by (cases tried)
  show ?thesis
  proof (cases r0)
    case (Inr s)
    with tr r t finally_block_frame[of c0 cur] show ?thesis
      by (auto simp: try_catch_finally_def same_refs_def)
  next
    case (Inl err)
    obtain r1 fx1 c1 where cb: "catch_block err c0 = (r1, fx1, c1)"
      by (cases "catch_block err c0")
    from catch_block_frame[OF cb] tr r t Inl cb finally_block_frame[of c1 cur] show ?thesis
      by (auto simp: try_catch_finally_def same_refs_def)
  qed
qed

lemma resume_frame:
  assumes "getClientSecret_resume e cur net c = (res, fx, c')"
  shows "only_console fx \<and> same_refs c c' \<and> (\<not> isMounted c \<longrightarrow> c' = c)"
proof -
  obtain r0 fx0 c0 where tb: "try_block e net c = (r0, fx0, c0)"
    by (cases "try_block e net c")
  from try_block_frame[OF tb] have
    "only_console (fst (snd (r0, fx0, c0))) \<and> same_refs c (snd (snd (r0, fx0, c0))) \<and>
     (\<not> isMounted c \<longrightarrow> snd (snd (r0, fx0, c0)) = c)" by simp
  from try_catch_finally_frame[OF this] assms tb show ?thesis
    by (simp add: getClientSecret_resume_def)
qed

lemma begin_frame:
  assumes "getClientSecret_begin e cur c = (res, fx, c')"
  shows "same_refs c c' \<and> (\<not> isMounted c \<longrightarrow> c' = c) \<and>
         widget_actions fx = [] \<and> theme_requests fx = [] \<and> sent_messages fx = [] \<and>
         (res = Awaiting \<longrightarrow> length (fetches fx) = 1) \<and>
         (res \<noteq> Awaiting \<longrightarrow> fetches fx = [])"
  using assms by (auto simp: getClientSecret_begin_def Let_def split: if_splits)

section \<open>Invariants of a thread lifetime\<close>

lemma widget_actions_append [simp]:
  "widget_actions (xs @ ys) = widget_actions xs @ widget_actions ys"
  by (induction xs rule: widget_actions.induct) simp_all

lemma sent_messages_append [simp]:
  "sent_messages (xs @ ys) = sent_messages xs @ sent_messages ys"
  by (induction xs rule: sent_messages.induct) simp_all

lemma theme_requests_append [simp]:
  "theme_requests (xs @ ys) = theme_requests xs @ theme_requests ys"
  by (induction xs rule: theme_requests.induct) simp_all

lemma fetches_append [simp]: "fetches (xs @ ys) = fetches xs @ fetches ys"
  by (induction xs rule: fetches.induct) simp_all

lemma onClientTool_facts:
  assumes "onClientTool e invoc c = (res, fx, c')"
  shows "sent_messages fx = [] \<and> fetches fx = [] \<and>
         ((widget_actions fx = [] \<and> c' = c) \<or>
          (\<exists>a. widget_actions fx = [a] \<and> factId a \<noteq> [] \<and> factId a \<notin> processedFacts c \<and>
               c' = c\<lparr>processedFacts := insert (factId a) (processedFacts c)\<rparr>))"
  using assms by (auto simp: onClientTool_def Let_def split: if_splits)

text \<open>One step of a thread lifetime: the facts it hands over are new, and remembered.\<close>

lemma step_facts:
  assumes "\<not> clears_guards ev" and "step e ev c = (fx, c')"
  shows "distinct (map factId (widget_actions fx)) \<and>
         set (map factId (widget_actions fx)) \<inter> processedFacts c = {} \<and>
         processedFacts c' = processedFacts c \<union> set (map factId (widget_actions fx))"
proof (cases ev)
  case (SecretRequested cur)
  obtain r where "getClientSecret_begin e cur c = (r, fx, c')"
    using assms(2) SecretRequested by (cases "getClientSecret_begin e cur c") simp
  from begin_frame[OF this] show ?thesis by (simp add: same_refs_def)
next
  case (SecretSettled cur net)
  obtain r where "getClientSecret_resume e cur net c = (r, fx, c')"
    using assms(2) SecretSettled by (cases "getClientSecret_resume e cur net c") simp
  from resume_frame[OF this] only_console_silent[of fx] show ?thesis
    by (simp add: same_refs_def)
next
  case (ClientTool invoc)
  obtain r where "onClientTool e invoc c = (r, fx, c')"
    using assms(2) ClientTool by (cases "onClientTool e invoc c") simp
  from onClientTool_facts[OF this] show ?thesis by auto
next
  case ThreadChanged
  with assms(1) show ?thesis by simp
next
  case RetryClicked
  with assms(1) show ?thesis by simp
next
  case (AutoStartRun ctl sender start)
  with assms(2) show ?thesis
    by (auto simp: autoStart_effect_def split: option.splits if_splits)
qed (insert assms(2), auto simp: onResponseStart_def onResponseEnd_def onError_def
      autoStart_rejected_def unmount_def setErrorMessage_def)

lemma run_facts:
  assumes "thread_lifetime evs" and "run e evs c = (fx, c')"
  shows "distinct (map factId (widget_actions fx)) \<and>
         set (map factId (widget_actions fx)) \<inter> processedFacts c = {} \<and>
         processedFacts c' = processedFacts c \<union> set (map factId (widget_actions fx))"
  using assms
proof (induction evs arbitrary: c fx c')
  case Nil
  then show ?case by simp
next
  case (Cons ev evs)
  obtain fx1 c1 where s1: "step e ev c = (fx1, c1)" by (cases "step e ev c")
  obtain fx2 c2 where r2: "run e evs c1 = (fx2, c2)" by (cases "run e evs c1")
  from Cons.prems s1 r2 have fx: "fx = fx1 @ fx2" and c': "c' = c2" by simp_all
  from Cons.prems(1) have nc: "\<not> clears_guards ev" and tl: "thread_lifetime evs"
    by (simp_all add: thread_lifetime_def)
  note a = step_facts[OF nc s1]
  note b = Cons.IH[OF tl r2]
  from a b show ?case unfolding fx c' by auto
qed

text \<open>One step of a thread lifetime sends at most one automatic message, and only with
  the guard down; the guard is up afterwards.\<close>

lemma step_sends:
  assumes "\<not> clears_guards ev" and "step e ev c = (fx, c')"
  shows "length (sent_messages fx) \<le> 1 \<and>
         (hasAutoStarted c \<longrightarrow> sent_messages fx = [] \<and> hasAutoStarted c') \<and>
         (sent_messages fx \<noteq> [] \<longrightarrow> hasAutoStarted c')"
proof (cases ev)
  case (SecretRequested cur)
  obtain r where "getClientSecret_begin e cur c = (r, fx, c')"
    using assms(2) SecretRequested by (cases "getClientSecret_begin e cur c") simp
  from begin_frame[OF this] show ?thesis by (simp add: same_refs_def)
next
  case (SecretSettled cur net)
  obtain r where "getClientSecret_resume e cur net c = (r, fx, c')"
    using assms(2) SecretSettled by (cases "getClientSecret_resume e cur net c") simp
  from resume_frame[OF this] only_console_silent[of fx] show ?thesis
    by (simp add: same_refs_def)
next
  case (ClientTool invoc)
  obtain r where "onClientTool e invoc c = (r, fx, c')"
    using assms(2) ClientTool by (cases "onClientTool e invoc c") simp
  from onClientTool_facts[OF this] show ?thesis by auto
next
  case ThreadChanged
  with assms(1) show ?thesis by simp
next
  case RetryClicked
  with assms(1) show ?thesis by simp
next
  case (AutoStartRun ctl sender start)
  with assms(2) show ?thesis
    by (auto simp: autoStart_effect_def split: option.splits if_splits)
qed (insert assms(2), auto simp: onResponseStart_def onResponseEnd_def onError_def
      autoStart_rejected_def unmount_def setErrorMessage_def)

lemma run_sends:
  assumes "thread_lifetime evs" and "run e evs c = (fx, c')"
  shows "length (sent_messages fx) \<le> 1 \<and>
         (hasAutoStarted c \<longrightarrow> sent_messages fx = [] \<and> hasAutoStarted c') \<and>
         (sent_messages fx \<noteq> [] \<longrightarrow> hasAutoStarted c')"
  using assms
proof (induction evs arbitrary: c fx c')
  case Nil
  then show ?case by simp
next
  case (Cons ev evs)
  obtain fx1 c1 where s1: "step e ev c = (fx1, c1)" by (cases "step e ev c")
  obtain fx2 c2 where r2: "run e evs c1 = (fx2, c2)" by (cases "run e evs c1")
  from Cons.prems s1 r2 have fx: "fx = fx1 @ fx2" and c': "c' = c2" by simp_all
  from Cons.prems(1) have nc: "\<not> clears_guards ev" and tl: "thread_lifetime evs"
    by (simp_all add: thread_lifetime_def)
  note a = step_sends[OF nc s1]
  note b = Cons.IH[OF tl r2]
  show ?case
  proof (cases "sent_messages fx1 = []")
    case True
    with a b show ?thesis unfolding fx c' by auto
  next
    case False
    with a have "hasAutoStarted c1" by simp
    with b have "sent_messages fx2 = []" and "hasAutoStarted c2" by simp_all
    with a False show ?thesis unfolding fx c' by auto
  qed
qed

section \<open>The guard, the generation and the effects of a negotiation\<close>

lemma only_console_imp: "only_console fx \<Longrightarrow> only_console_or_fetch fx"
  by (simp add: only_console_def only_console_or_fetch_def list_all_iff)

lemma only_console_or_fetch_append [simp]:
  "only_console_or_fetch (xs @ ys) \<longleftrightarrow> only_console_or_fetch xs \<and> only_console_or_fetch ys"
  by (simp add: only_console_or_fetch_def)

lemma begin_effects: "only_console_or_fetch (fst (snd (getClientSecret_begin e cur c)))"
  by (simp add: getClientSecret_begin_def Let_def only_console_or_fetch_def)

lemma getClientSecret_effects:
  "only_console_or_fetch (fst (snd (getClientSecret e cur net c)))"
proof -
  obtain b fx1 c1 where bg: "getClientSecret_begin e cur c = (b, fx1, c1)"
    by (cases "getClientSecret_begin e cur c")
  from begin_effects[of e cur c] bg have f1: "only_console_or_fetch fx1" by simp
  show ?thesis
  proof (cases b)
    case (Failed t)
    with bg f1 show ?thesis by (simp add: getClientSecret_def)
  next
    case Awaiting
    obtain r2 fx2 c2 where rs: "getClientSecret_resume e cur net c1 = (r2, fx2, c2)"
      by (cases "getClientSecret_resume e cur net c1")
    from resume_frame[OF rs] have "only_console_or_fetch fx2"
      using only_console_imp by blast
    with bg Awaiting rs f1 show ?thesis by (simp add: getClientSecret_def)
  qed
qed

lemma two_fields:
  "same_refs c c' \<Longrightarrow>
   c' = c\<lparr>errors_message := errors_message c',
           isInitializingSession := isInitializingSession c'\<rparr>"
  by (cases c, cases c') (simp add: same_refs_def)

text \<open>The guard goes up only by a send, and the generation stays, in a thread lifetime.\<close>

lemma step_guard:
  assumes "\<not> clears_guards ev" and "step e ev c = (fx, c')"
  shows "hasAutoStarted c' = (hasAutoStarted c \<or> sent_messages fx \<noteq> []) \<and>
         widgetInstanceKey c' = widgetInstanceKey c \<and>
         (\<not> ready_run ev \<longrightarrow> sent_messages fx = [])"
proof (cases ev)
  case (SecretRequested cur)
  obtain r where "getClientSecret_begin e cur c = (r, fx, c')"
    using assms(2) SecretRequested by (cases "getClientSecret_begin e cur c") simp
  from begin_frame[OF this] show ?thesis by (simp add: same_refs_def)
next
  case (SecretSettled cur net)
  obtain r where "getClientSecret_resume e cur net c = (r, fx, c')"
    using assms(2) SecretSettled by (cases "getClientSecret_resume e cur net c") simp
  from resume_frame[OF this] only_console_silent[of fx] show ?thesis
    by (simp add: same_refs_def)
next
  case (ClientTool invoc)
  obtain r where "onClientTool e invoc c = (r, fx, c')"
    using assms(2) ClientTool by (cases "onClientTool e invoc c") simp
  from onClientTool_facts[OF this] show ?thesis by auto
next
  case ThreadChanged
  with assms(1) show ?thesis by simp
next
  case RetryClicked
  with assms(1) show ?thesis by simp
next
  case (AutoStartRun ctl sender start)
  with assms(2) show ?thesis
    by (auto simp: autoStart_effect_def split: option.splits if_splits)
qed (insert assms(2), auto simp: onResponseStart_def onResponseEnd_def onError_def
      autoStart_rejected_def unmount_def setErrorMessage_def)

lemma run_quiet:
  assumes "quiet evs" and "run e evs c = (fx, c')"
  shows "sent_messages fx = [] \<and> hasAutoStarted c' = hasAutoStarted c \<and>
         widgetInstanceKey c' = widgetInstanceKey c"
  using assms
proof (induction evs arbitrary: c fx c')
  case Nil
  then show ?case by simp
next
  case (Cons ev evs)
  obtain fx1 c1 where s1: "step e ev c = (fx1, c1)" by (cases "step e ev c")
  obtain fx2 c2 where r2: "run e evs c1 = (fx2, c2)" by (cases "run e evs c1")
  from Cons.prems s1 r2 have fx: "fx = fx1 @ fx2" and c': "c' = c2" by simp_all
  from Cons.prems(1) have nc: "\<not> clears_guards ev" and nr: "\<not> ready_run ev"
    and q: "quiet evs"
    by (simp_all add: quiet_def)
  from step_guard[OF nc s1] nr Cons.IH[OF q r2] show ?case
    unfolding fx c' by simp
qed

lemma run_generation:
  assumes "thread_lifetime evs" and "run e evs c = (fx, c')"
  shows "widgetInstanceKey c' = widgetInstanceKey c"
  using assms
proof (induction evs arbitrary: c fx c')
  case Nil
  then show ?case by simp
next
  case (Cons ev evs)
  obtain fx1 c1 where s1: "step e ev c = (fx1, c1)" by (cases "step e ev c")
  obtain fx2 c2 where r2: "run e evs c1 = (fx2, c2)" by (cases "run e evs c1")
  from Cons.prems s1 r2 have c': "c' = c2" by simp
  from Cons.prems(1) have nc: "\<not> clears_guards ev" and tl: "thread_lifetime evs"
    by (simp_all add: thread_lifetime_def)
  from step_guard[OF nc s1] Cons.IH[OF tl r2] show ?case
    unfolding c' by simp
qed

lemma run_append:
  "run e (xs @ ys) c =
     (case run e xs c of (fx, c1) \<Rightarrow> case run e ys c1 of (fx2, c2) \<Rightarrow> (fx @ fx2, c2))"
  by (induction xs arbitrary: c) (simp_all split: prod.splits)

lemma next_ready_run_sends:
  assumes q: "quiet pre" and g: "\<not> hasAutoStarted c" and s: "start \<noteq> []"
    and tl: "thread_lifetime evs"
  shows "sent_messages (fst (run e (pre @ AutoStartRun True True (Some start) # evs) c)) = [start] \<and>
         widgetInstanceKey (snd (run e (pre @ AutoStartRun True True (Some start) # evs) c)) =
           widgetInstanceKey c"
proof -
  obtain fx1 c1 where r1: "run e pre c = (fx1, c1)" by (cases "run e pre c")
  from run_quiet[OF q r1] g have a: "sent_messages fx1 = []" "\<not> hasAutoStarted c1"
    "widgetInstanceKey c1 = widgetInstanceKey c" by simp_all
  obtain fx2 c2 where r2: "run e evs (c1\<lparr>hasAutoStarted := True\<rparr>) = (fx2, c2)"
    by (cases "run e evs (c1\<lparr>hasAutoStarted := True\<rparr>)")
  from run_sends[OF tl r2] have b: "sent_messages fx2 = []" by simp
  from run_generation[OF tl r2] have k: "widgetInstanceKey c2 = widgetInstanceKey c1" by simp
  from r1 r2 a b k s show ?thesis
    by (simp add: run_append autoStart_effect_def)
qed

section \<open>The claims\<close>

subsection \<open>Failure detail of a negotiation\<close>

lemma resume_not_ok:
  assumes "\<not> ok r"
  shows "getClientSecret_resume e cur (Responded r) c =
           (Inl (JsError (extractErrorDetail (Some (fst (session_data (raw r)))) (statusText r))),
            (if isDev e then [Console L_info ''[ChatKitPanel] createSession response''] else []) @
            snd (session_data (raw r)) @
            [Console L_error ''Create session request failed'',
             Console L_error ''Failed to create ChatKit session''],
            finally_block cur
              (if isMounted c
               then setErrorMessage
                      (Some (extractErrorDetail (Some (fst (session_data (raw r)))) (statusText r))) c
               else c))"
  using assms
  by (cases "session_data (raw r)")
     (simp add: getClientSecret_resume_def try_block_def try_catch_finally_def catch_block_def
        Let_def)

lemma errors_message_finally [simp]:
  "errors_message (finally_block cur c) = errors_message c"
  by (simp add: finally_block_def setIsInitializingSession_def)

lemma errors_message_set [simp]:
  "errors_message (setErrorMessage m c) = m"
  "errors_message (setIsInitializingSession b c) = errors_message c"
  by (simp_all add: setErrorMessage_def setIsInitializingSession_def)

text \<open>
  Claim C2. For every payload and every status text, the detail \<^verbatim>\<open>extractErrorDetail\<close>
  computes is the first match of the specified order (\<open>spec_error_detail\<close>: a string
  \<^verbatim>\<open>error\<close>; an object \<^verbatim>\<open>error\<close> with a string \<^verbatim>\<open>message\<close>; a string
  \<^verbatim>\<open>details\<close>; within an object \<^verbatim>\<open>details\<close>, a string \<^verbatim>\<open>error\<close> or an
  \<^verbatim>\<open>error\<close> object with a string \<^verbatim>\<open>message\<close>; a string top-level \<^verbatim>\<open>message\<close>;
  otherwise the status text). For the payload
  \<^verbatim>\<open>{"details":{"error":{"message":X}}}\<close> it is exactly \<open>X\<close>. It is the detail that is
  surfaced: a response whose status is not a success makes \<^verbatim>\<open>getClientSecret\<close> throw an
  \<^verbatim>\<open>Error\<close> with that message and, while the component is mounted, puts it in the
  error message of the page.
\<close>

theorem error_detail_fallback_order:
  "extractErrorDetail payload st = spec_error_detail payload st \<and>
   extractErrorDetail
     (Some (JObj [(''details'', JObj [(''error'', JObj [(''message'', JStr x)])])])) st = x \<and>
   (\<not> ok r \<longrightarrow>
      fst (getClientSecret_resume e cur (Responded r) c) =
        Inl (JsError (spec_error_detail (Some (fst (session_data (raw r)))) (statusText r))) \<and>
      (isMounted c \<longrightarrow>
         errors_message (snd (snd (getClientSecret_resume e cur (Responded r) c))) =
           Some (spec_error_detail (Some (fst (session_data (raw r)))) (statusText r))))"
proof -
  have a: "extractErrorDetail payload st = spec_error_detail payload st"
    by (rule extractErrorDetail_refines)
  have b: "extractErrorDetail
     (Some (JObj [(''details'', JObj [(''error'', JObj [(''message'', JStr x)])])])) st = x"
    by (simp add: extractErrorDetail_def isErrorLikeWithMessage_def isErrorDetailsWithError_def)
  have c: "fst (getClientSecret_resume e cur (Responded r) c) =
        Inl (JsError (spec_error_detail (Some (fst (session_data (raw r)))) (statusText r)))"
    if "\<not> ok r"
    using resume_not_ok[OF that, of e cur c] by (simp add: extractErrorDetail_refines)
  have d: "errors_message (snd (snd (getClientSecret_resume e cur (Responded r) c))) =
           Some (spec_error_detail (Some (fst (session_data (raw r)))) (statusText r))"
    if "\<not> ok r" "isMounted c"
    using resume_not_ok[OF that(1), of e cur c] that(2) by (simp add: extractErrorDetail_refines)
  from a b c d show ?thesis by blast
qed

theorem error_detail_fallback_order_witness:
  "\<not> ok response_500 \<and> isMounted initial_controller \<and>
   fst (getClientSecret_resume example_env None (Responded response_500) initial_controller) =
     Inl (JsError ''X'') \<and>
   errors_message
     (snd (snd (getClientSecret_resume example_env None (Responded response_500)
        initial_controller))) = Some ''X''"
  using error_detail_fallback_order
    [of "Some (fst (session_data (raw response_500)))" "statusText response_500" "''X''"
        response_500 example_env None initial_controller]
  by (simp add: response_500_def initial_controller_def session_data_def spec_error_detail_def)

subsection \<open>The theme tool\<close>

text \<open>
  Claim C6. For every \<^verbatim>\<open>switch_theme\<close> invocation: when its \<^verbatim>\<open>theme\<close> parameter is
  exactly the string \<^verbatim>\<open>light\<close> or exactly the string \<^verbatim>\<open>dark\<close>, the theme callback
  is called once, with that value, and the result is a success; for every other value
  (another string, another type, no such parameter) the result is a failure and nothing
  at all is done, so the callback is not called. The controller state is the same after.
\<close>

theorem switch_theme_exact:
  assumes "name invoc = ''switch_theme''"
  shows "(map_of (params invoc) ''theme'' = Some (JStr ''light'') \<longrightarrow>
            fst (onClientTool e invoc c) \<and>
            theme_requests (fst (snd (onClientTool e invoc c))) = [''light'']) \<and>
         (map_of (params invoc) ''theme'' = Some (JStr ''dark'') \<longrightarrow>
            fst (onClientTool e invoc c) \<and>
            theme_requests (fst (snd (onClientTool e invoc c))) = [''dark'']) \<and>
         (map_of (params invoc) ''theme'' \<noteq> Some (JStr ''light'') \<and>
          map_of (params invoc) ''theme'' \<noteq> Some (JStr ''dark'') \<longrightarrow>
            \<not> fst (onClientTool e invoc c) \<and> fst (snd (onClientTool e invoc c)) = []) \<and>
         snd (snd (onClientTool e invoc c)) = c"
  using assms by (simp add: onClientTool_def Let_def)

theorem switch_theme_exact_witness:
  "name \<lparr>name = ''switch_theme'', params = [(''theme'', JStr ''dark'')]\<rparr> = ''switch_theme'' \<and>
   onClientTool example_env \<lparr>name = ''switch_theme'', params = [(''theme'', JStr ''dark'')]\<rparr>
     initial_controller = (True, [ThemeRequest ''dark''], initial_controller) \<and>
   onClientTool example_env \<lparr>name = ''switch_theme'', params = [(''theme'', JStr ''Dark'')]\<rparr>
     initial_controller = (False, [], initial_controller)"
  using switch_theme_exact
    [of "\<lparr>name = ''switch_theme'', params = [(''theme'', JStr ''dark'')]\<rparr>"
        example_env initial_controller]
  by (simp add: onClientTool_def example_env_def)

subsection \<open>Errors reported by the widget\<close>

text \<open>
  Claim C10. For every \<^verbatim>\<open>onError\<close> event of the widget the controller writes one
  console line and nothing else: the state after is the state before, so the error
  message, the initialising flag, the processed facts, the auto-start guard and the
  generation are the same, and so is \<open>hasError\<close>, which decides whether the page shows
  an error with its retry button.
\<close>

theorem widget_error_only_logs:
  "onError err c = ([Console L_error ''ChatKit error''], c) \<and>
   step e (WidgetError t) c = ([Console L_error ''ChatKit error''], c) \<and>
   errors_message (snd (onError err c)) = errors_message c \<and>
   isInitializingSession (snd (onError err c)) = isInitializingSession c \<and>
   processedFacts (snd (onError err c)) = processedFacts c \<and>
   hasAutoStarted (snd (onError err c)) = hasAutoStarted c \<and>
   widgetInstanceKey (snd (onError err c)) = widgetInstanceKey c \<and>
   hasError (snd (onError err c)) = hasError c"
  by (simp add: onError_def)

theorem widget_error_only_logs_witness:
  "run example_env [WidgetError (JsError ''stream failed'')] initial_controller =
     ([Console L_error ''ChatKit error''], initial_controller) \<and>
   \<not> hasError (snd (run example_env [WidgetError (JsError ''stream failed'')] initial_controller))"
  using widget_error_only_logs [of "JsError ''stream failed''" initial_controller example_env
      "JsError ''stream failed''"]
  by (simp add: hasError_def initial_controller_def createInitialErrors_def)

subsection \<open>The fact tool\<close>

lemma tool_calls_thread_lifetime: "thread_lifetime (map ClientTool invs)"
  by (simp add: thread_lifetime_def list_all_iff)

text \<open>
  Claim C1. In every run of the controller with no thread change and no reset in it, from
  any state, the fact handler \<^verbatim>\<open>onWidgetAction\<close> is called at most once per fact
  identifier: the identifiers of its calls are pairwise distinct, none of them was in
  \<^verbatim>\<open>processedFacts\<close> when the run began, and all of them are in it when the run ends.
  Every sequence of tool invocations is such a run (second conjunct). A second invocation
  with the same identifier finds the identifier in the set whether or not the promise of
  the first handler call has settled, because the identifier is in the set in the very
  state in which the handler is called (last conjunct): the dispatcher does not await the
  handler, so the settling is no event of the controller.
\<close>

theorem record_fact_at_most_once:
  assumes "thread_lifetime evs"
  shows "distinct (map factId (widget_actions (fst (run e evs c)))) \<and>
         distinct (map factId (widget_actions (fst (run e (map ClientTool invs) c)))) \<and>
         (\<forall>a \<in> set (widget_actions (fst (run e evs c))).
            factId a \<notin> processedFacts c \<and> factId a \<in> processedFacts (snd (run e evs c))) \<and>
         (\<forall>a \<in> set (widget_actions (fst (snd (onClientTool e invoc c)))).
            factId a \<notin> processedFacts c \<and>
            factId a \<in> processedFacts (snd (snd (onClientTool e invoc c))))"
proof -
  obtain fx c' where r: "run e evs c = (fx, c')" by (cases "run e evs c")
  obtain res fx1 c1 where t: "onClientTool e invoc c = (res, fx1, c1)"
    by (cases "onClientTool e invoc c")
  obtain fx2 c2 where r2: "run e (map ClientTool invs) c = (fx2, c2)"
    by (cases "run e (map ClientTool invs) c")
  from run_facts[OF tool_calls_thread_lifetime r2] have
    "distinct (map factId (widget_actions fx2))" by simp
  moreover from run_facts[OF assms r] have
    "distinct (map factId (widget_actions fx))"
    "\<forall>a \<in> set (widget_actions fx). factId a \<notin> processedFacts c \<and> factId a \<in> processedFacts c'"
    by auto
  moreover from onClientTool_facts[OF t] have
    "\<forall>a \<in> set (widget_actions fx1). factId a \<notin> processedFacts c \<and> factId a \<in> processedFacts c1"
    by auto
  ultimately show ?thesis by (simp add: r r2 t)
qed

theorem record_fact_at_most_once_witness:
  "thread_lifetime [ClientTool record_f1, ClientTool record_f1] \<and>
   widget_actions
     (fst (run example_env [ClientTool record_f1, ClientTool record_f1] initial_controller)) =
     [\<lparr>factId = ''f1'', factText = ''likes tea''\<rparr>] \<and>
   distinct (map factId (widget_actions
     (fst (run example_env [ClientTool record_f1, ClientTool record_f1] initial_controller))))"
  using record_fact_at_most_once
    [of "[ClientTool record_f1, ClientTool record_f1]" example_env initial_controller
        "[record_f1, record_f1]" record_f1]
  by (simp add: thread_lifetime_def record_f1_def onClientTool_def initial_controller_def
      trim_def is_ws_def Let_def)

subsection \<open>Thread change\<close>

text \<open>
  Claim C8. Every thread-change event empties \<^verbatim>\<open>processedFacts\<close> and lowers the
  auto-start guard, and changes nothing else: the generation, the error message, the
  initialising flag and the mounted flag are as before, and nothing is done to the
  outside. So a \<^verbatim>\<open>record_fact\<close> invocation with a non-empty identifier calls the
  handler after the event even if the same identifier had been handled before it.
\<close>

theorem thread_change_clears_guards:
  "onThreadChange c = ([], c\<lparr>processedFacts := {}, hasAutoStarted := False\<rparr>) \<and>
   processedFacts (snd (onThreadChange c)) = {} \<and>
   \<not> hasAutoStarted (snd (onThreadChange c)) \<and>
   widgetInstanceKey (snd (onThreadChange c)) = widgetInstanceKey c \<and>
   errors_message (snd (onThreadChange c)) = errors_message c \<and>
   isInitializingSession (snd (onThreadChange c)) = isInitializingSession c \<and>
   isMounted (snd (onThreadChange c)) = isMounted c \<and>
   (name invoc = ''record_fact'' \<and>
    js_String (nullish (map_of (params invoc) ''fact_id'') (JStr [])) \<noteq> [] \<longrightarrow>
      map factId (widget_actions (fst (snd (onClientTool e invoc (snd (onThreadChange c)))))) =
        [js_String (nullish (map_of (params invoc) ''fact_id'') (JStr []))])"
  by (simp add: onThreadChange_def onClientTool_def Let_def)

theorem thread_change_clears_guards_witness:
  "name record_f1 = ''record_fact'' \<and>
   js_String (nullish (map_of (params record_f1) ''fact_id'') (JStr [])) = ''f1'' \<and>
   ''f1'' \<in> processedFacts (snd (run example_env [ClientTool record_f1] initial_controller)) \<and>
   map factId (widget_actions (fst
     (run example_env [ClientTool record_f1, ClientTool record_f1, ThreadChanged,
        ClientTool record_f1] initial_controller))) = [''f1'', ''f1'']"
  using thread_change_clears_guards
    [of "snd (run example_env [ClientTool record_f1] initial_controller)" record_f1 example_env]
  by (simp add: record_f1_def onClientTool_def onThreadChange_def initial_controller_def
      trim_def is_ws_def Let_def)

subsection \<open>Auto-start\<close>




subsection \<open>Reset\<close>

text \<open>
  Claim C7 says that a manual reset re-enables exactly one automatic send for the new
  generation. A thread change within the new generation lowers the guard again: below,
  after a failed automatic send and a retry, generation 1 has two automatic sends.
\<close>

theorem reset_then_two_auto_starts:
  "sends_in_generation 1
     (run_keyed example_env
        [AutoStartRun True True (Some ''Start''), AutoStartRejected, RetryClicked,
         AutoStartRun True True (Some ''Start''), ThreadChanged,
         AutoStartRun True True (Some ''Start'')]
        initial_controller) = [''Start'', ''Start'']"
  by (simp add: sends_in_generation_def autoStart_effect_def autoStart_rejected_def
      setErrorMessage_def handleResetChat_def onThreadChange_def initial_controller_def)

text \<open>
  Claim C7, amended. Every manual reset (\<^verbatim>\<open>handleResetChat\<close>) increments the widget
  generation by one, empties \<^verbatim>\<open>processedFacts\<close>, clears the error message, sets the
  initialising flag, lowers the auto-start guard and leaves the mounted flag alone. It
  thereby re-enables one automatic send: whatever events come first (no thread change,
  no reset and no ready run of the effect among them), the next run of the effect with
  the widget ready and a non-empty start text sends that text once and raises the guard,
  and no further automatic message is sent until a thread change or another reset; all
  of it happens in the new generation.
\<close>

theorem reset_rearms_auto_start:
  "widgetInstanceKey (handleResetChat c) = widgetInstanceKey c + 1 \<and>
   processedFacts (handleResetChat c) = {} \<and>
   errors_message (handleResetChat c) = None \<and>
   isInitializingSession (handleResetChat c) \<and>
   \<not> hasAutoStarted (handleResetChat c) \<and>
   isMounted (handleResetChat c) = isMounted c \<and>
   (start \<noteq> [] \<longrightarrow>
      autoStart_effect True True (Some start) (handleResetChat c) =
        ([SendUserMessage start True], (handleResetChat c)\<lparr>hasAutoStarted := True\<rparr>)) \<and>
   (quiet pre \<and> start \<noteq> [] \<and> thread_lifetime evs \<longrightarrow>
      sent_messages
        (fst (run e (pre @ AutoStartRun True True (Some start) # evs) (handleResetChat c))) =
        [start] \<and>
      widgetInstanceKey
        (snd (run e (pre @ AutoStartRun True True (Some start) # evs) (handleResetChat c))) =
        widgetInstanceKey c + 1)"
proof -
  have fields: "widgetInstanceKey (handleResetChat c) = widgetInstanceKey c + 1 \<and>
      processedFacts (handleResetChat c) = {} \<and>
      errors_message (handleResetChat c) = None \<and>
      isInitializingSession (handleResetChat c) \<and>
      \<not> hasAutoStarted (handleResetChat c) \<and>
      isMounted (handleResetChat c) = isMounted c"
    by (simp add: handleResetChat_def createInitialErrors_def)
  have first: "autoStart_effect True True (Some start) (handleResetChat c) =
        ([SendUserMessage start True], (handleResetChat c)\<lparr>hasAutoStarted := True\<rparr>)"
    if "start \<noteq> []"
    using that fields by (simp add: autoStart_effect_def)
  have rest: "sent_messages
        (fst (run e (pre @ AutoStartRun True True (Some start) # evs) (handleResetChat c))) =
        [start] \<and>
      widgetInstanceKey
        (snd (run e (pre @ AutoStartRun True True (Some start) # evs) (handleResetChat c))) =
        widgetInstanceKey c + 1"
    if "quiet pre" "start \<noteq> []" "thread_lifetime evs"
    using next_ready_run_sends[OF that(1) _ that(2) that(3), of "handleResetChat c" e] fields
    by simp
  from fields first rest show ?thesis by blast
qed

theorem reset_rearms_auto_start_witness:
  "quiet [ResponseStarted, ClientTool record_f1, AutoStartRun False True (Some ''Start''),
          SecretRequested None] \<and>
   ''Start'' \<noteq> [] \<and> thread_lifetime [AutoStartRun True True (Some ''Start'')] \<and>
   handleResetChat
     (initial_controller\<lparr>processedFacts := {''f1''}, hasAutoStarted := True,
        isInitializingSession := False, errors_message := Some ''Failed to fetch''\<rparr>) =
     initial_controller\<lparr>widgetInstanceKey := 1\<rparr> \<and>
   sent_messages (fst (run example_env
     ([ResponseStarted, ClientTool record_f1, AutoStartRun False True (Some ''Start''),
       SecretRequested None] @
      AutoStartRun True True (Some ''Start'') # [AutoStartRun True True (Some ''Start'')])
     (handleResetChat
        (initial_controller\<lparr>processedFacts := {''f1''}, hasAutoStarted := True,
           isInitializingSession := False, errors_message := Some ''Failed to fetch''\<rparr>)))) =
     [''Start'']"
  using reset_rearms_auto_start
    [of "initial_controller\<lparr>processedFacts := {''f1''}, hasAutoStarted := True,
           isInitializingSession := False, errors_message := Some ''Failed to fetch''\<rparr>"
        "''Start''"
        "[ResponseStarted, ClientTool record_f1, AutoStartRun False True (Some ''Start''),
          SecretRequested None]"
        "[AutoStartRun True True (Some ''Start'')]" example_env]
  by (simp add: quiet_def thread_lifetime_def handleResetChat_def initial_controller_def
      createInitialErrors_def)

subsection \<open>Negotiation without a workflow identifier\<close>

lemma not_configured_iff:
  "\<not> isWorkflowConfigured e \<longleftrightarrow>
     WORKFLOW_ID e = None \<or> WORKFLOW_ID e = Some [] \<or>
     (\<exists>w. WORKFLOW_ID e = Some w \<and> startsWith w ''wf_replace'')"
  by (cases "WORKFLOW_ID e") (auto simp: isWorkflowConfigured_def startsWith_def)

text \<open>
  Claim C4 says that every call without a configured workflow identifier sets the error
  message and clears the initialising flag. Both writes stand behind the check of
  \<^verbatim>\<open>isMountedRef.current\<close>: on an unmounted component the call still fails, and the
  error message and the flag stay as they were.
\<close>

theorem unconfigured_after_unmount:
  "\<not> isWorkflowConfigured placeholder_env \<and>
   errors_message
     (snd (snd (getClientSecret_begin placeholder_env None (unmount initial_controller)))) = None \<and>
   isInitializingSession
     (snd (snd (getClientSecret_begin placeholder_env None (unmount initial_controller))))"
  by (simp add: getClientSecret_begin_def isWorkflowConfigured_def startsWith_def
      placeholder_env_def example_env_def unmount_def initial_controller_def
      createInitialErrors_def)

text \<open>
  Claim C4, amended. For every call of \<^verbatim>\<open>getClientSecret\<close> while the workflow
  identifier is unset, empty or begins with the placeholder prefix \<^verbatim>\<open>wf_replace\<close>: no
  network request is issued, whatever the network would have answered, and the call
  fails at once with the configuration detail "Set NEXT_PUBLIC_CHATKIT_WORKFLOW_ID in your
  .env.local file."; while the component is mounted it sets the error message to that
  detail and clears the initialising flag, and after unmount it leaves the state as it is.
\<close>

theorem unconfigured_fails_without_request:
  assumes "WORKFLOW_ID e = None \<or> WORKFLOW_ID e = Some [] \<or>
           (\<exists>w. WORKFLOW_ID e = Some w \<and> startsWith w ''wf_replace'')"
  shows "fst (getClientSecret_begin e cur c) =
           Failed (JsError ''Set NEXT_PUBLIC_CHATKIT_WORKFLOW_ID in your .env.local file.'') \<and>
         fetches (fst (snd (getClientSecret_begin e cur c))) = [] \<and>
         snd (snd (getClientSecret_begin e cur c)) =
           (if isMounted c
            then c\<lparr>errors_message :=
                     Some ''Set NEXT_PUBLIC_CHATKIT_WORKFLOW_ID in your .env.local file.'',
                   isInitializingSession := False\<rparr>
            else c) \<and>
         getClientSecret e cur net c =
           (Inl (JsError ''Set NEXT_PUBLIC_CHATKIT_WORKFLOW_ID in your .env.local file.''),
            snd (getClientSecret_begin e cur c))"
proof -
  from assms have "\<not> isWorkflowConfigured e" by (simp add: not_configured_iff)
  then show ?thesis
    by (simp add: getClientSecret_begin_def getClientSecret_def Let_def setErrorMessage_def
        setIsInitializingSession_def)
qed

theorem unconfigured_fails_without_request_witness:
  "(\<exists>w. WORKFLOW_ID placeholder_env = Some w \<and> startsWith w ''wf_replace'') \<and>
   getClientSecret placeholder_env None (Responded response_200_empty) initial_controller =
     (Inl (JsError ''Set NEXT_PUBLIC_CHATKIT_WORKFLOW_ID in your .env.local file.''),
      [],
      initial_controller
        \<lparr>errors_message := Some ''Set NEXT_PUBLIC_CHATKIT_WORKFLOW_ID in your .env.local file.'',
         isInitializingSession := False\<rparr>)"
  using unconfigured_fails_without_request
    [of placeholder_env None initial_controller "Responded response_200_empty"]
  by (simp add: placeholder_env_def example_env_def startsWith_def initial_controller_def
      getClientSecret_begin_def isWorkflowConfigured_def setErrorMessage_def
      setIsInitializingSession_def createInitialErrors_def Let_def)

subsection \<open>A success status without a client secret\<close>

lemma read_prop_throws: "read_prop m data k = Inl t \<Longrightarrow> t = JsTypeError m"
  by (cases data) simp_all

lemma resume_ok:
  assumes "ok r"
  shows "fst (getClientSecret_resume e cur (Responded r) c) =
           (case read_prop (nullReadMessage e) (fst (session_data (raw r))) ''client_secret'' of
              Inl t \<Rightarrow> Inl t
            | Inr s \<Rightarrow> if truthy s then Inr s
                       else Inl (JsError ''Missing client secret in response''))"
proof -
  obtain data plog where sd: "session_data (raw r) = (data, plog)"
    by (cases "session_data (raw r)")
  show ?thesis
  proof (cases "read_prop (nullReadMessage e) data ''client_secret''")
    case (Inl t)
    from read_prop_throws[OF Inl] have "instanceof_Error t" by simp
    with assms sd Inl show ?thesis
      by (simp add: getClientSecret_resume_def try_block_def try_catch_finally_def
          catch_block_def Let_def)
  next
    case (Inr s)
    with assms sd show ?thesis
      by (simp add: getClientSecret_resume_def try_block_def try_catch_finally_def
          catch_block_def Let_def)
  qed
qed

lemma read_prop_not_null:
  "data \<noteq> JNull \<Longrightarrow> read_prop m data k = Inr (get_prop (Some data) k)"
  by (cases data) simp_all

lemma missing_client_secret:
  assumes "ok r" and "fst (session_data (raw r)) \<noteq> JNull"
    and "\<not> truthy (get_prop (Some (fst (session_data (raw r)))) ''client_secret'')"
  shows "fst (getClientSecret_resume e cur (Responded r) c) =
           Inl (JsError ''Missing client secret in response'')"
  using assms by (simp add: resume_ok read_prop_not_null)

lemma missing_client_secret_empty_body:
  "fst (getClientSecret_resume e cur (Responded response_200_empty) c) =
     Inl (JsError ''Missing client secret in response'')"
  by (rule missing_client_secret) (simp_all add: response_200_empty_def session_data_def)

lemma missing_client_secret_v1:
  assumes "ok r"
    and "\<not> truthy (read_prop_optional (fst (session_data (raw r))) ''client_secret'')"
  shows "fst (getClientSecret_resume_v1 e cur (Responded r) c) =
           Inl (JsError ''Missing client secret in response'')"
  using assms
  by (cases "session_data (raw r)")
     (simp add: getClientSecret_resume_v1_def try_block_v1_def try_catch_finally_def
        catch_block_def Let_def)

lemma null_body_v1:
  "fst (getClientSecret_resume_v1 e cur (Responded response_200_null) c) =
     Inl (JsError ''Missing client secret in response'')"
  by (rule missing_client_secret_v1) (simp_all add: response_200_null_def session_data_def)

text \<open>
  Claim C5 says that every negotiation with a success status and a payload without a
  non-empty \<^verbatim>\<open>client_secret\<close> fails with the message "Missing client secret in
  response". The lemmas above show it for every payload but one: when the body is the
  JSON text \<^verbatim>\<open>null\<close>, the read \<^verbatim>\<open>data.client_secret\<close> of the current revision throws a
  \<^verbatim>\<open>TypeError\<close>, and it is the engine's message for that error that is thrown on and
  shown. The earlier revision reads \<^verbatim>\<open>data?.client_secret\<close> and gives the specified
  message there too (\<open>null_body_v1\<close>). The evaluation at the failing input:
\<close>

theorem null_body_surfaces_type_error:
  "getClientSecret example_env None (Responded response_200_null) initial_controller =
     (Inl (JsTypeError ''Cannot read properties of null (reading 'client_secret')''),
      [Fetch ''/api/create-session'' (Some ''wf_68e5''),
       Console L_error ''Failed to create ChatKit session''],
      initial_controller
        \<lparr>errors_message := Some ''Cannot read properties of null (reading 'client_secret')'',
         isInitializingSession := False\<rparr>) \<and>
   message_of (JsTypeError ''Cannot read properties of null (reading 'client_secret')'') \<noteq>
     ''Missing client secret in response''"
  by (simp add: getClientSecret_def getClientSecret_begin_def getClientSecret_resume_def
      try_block_def try_catch_finally_def catch_block_def finally_block_def session_data_def
      isWorkflowConfigured_def startsWith_def example_env_def response_200_null_def
      initial_controller_def setErrorMessage_def setIsInitializingSession_def
      createInitialErrors_def Let_def)

subsection \<open>What a negotiation writes\<close>

text \<open>
  Claim C9 says that \<^verbatim>\<open>getClientSecret\<close> does not itself change the error message or
  the initialising flag. It does: a refresh whose request fails sets the error message,
  and a first call whose request fails also clears the initialising flag.
\<close>

theorem getClientSecret_writes_state:
  "errors_message initial_controller = None \<and> isInitializingSession initial_controller \<and>
   errors_message
     (snd (snd (getClientSecret example_env (Some ''ek_1'')
        (Rejected (JsTypeError ''Failed to fetch'')) initial_controller))) =
     Some ''Failed to fetch'' \<and>
   \<not> isInitializingSession
     (snd (snd (getClientSecret example_env None
        (Rejected (JsTypeError ''Failed to fetch'')) initial_controller)))"
  by (simp add: getClientSecret_def getClientSecret_begin_def getClientSecret_resume_def
      try_block_def try_catch_finally_def catch_block_def finally_block_def
      isWorkflowConfigured_def startsWith_def example_env_def
      initial_controller_def setErrorMessage_def setIsInitializingSession_def
      createInitialErrors_def Let_def)

lemma getClientSecret_frame_aux:
  assumes "getClientSecret e cur net c = (res, fx, c')"
  shows "same_refs c c' \<and> (\<not> isMounted c \<longrightarrow> c' = c) \<and> length (fetches fx) \<le> 1 \<and>
         widget_actions fx = [] \<and> theme_requests fx = [] \<and> sent_messages fx = []"
proof -
  obtain b fx1 c1 where bg: "getClientSecret_begin e cur c = (b, fx1, c1)"
    by (cases "getClientSecret_begin e cur c")
  note f1 = begin_frame[OF bg]
  show ?thesis
  proof (cases b)
    case (Failed t)
    with assms bg f1 show ?thesis by (auto simp: getClientSecret_def)
  next
    case Awaiting
    obtain r2 fx2 c2 where rs: "getClientSecret_resume e cur net c1 = (r2, fx2, c2)"
      by (cases "getClientSecret_resume e cur net c1")
    note f2 = resume_frame[OF rs]
    from f2 have s2: "widget_actions fx2 = [] \<and> theme_requests fx2 = [] \<and>
        sent_messages fx2 = [] \<and> fetches fx2 = []"
      using only_console_silent by blast
    from assms bg Awaiting rs have "fx = fx1 @ fx2" "c' = c2"
      by (simp_all add: getClientSecret_def)
    with f1 f2 s2 Awaiting show ?thesis
      by (auto simp: same_refs_def)
  qed
qed

text \<open>
  Claim C9, amended. For every call, everything \<^verbatim>\<open>getClientSecret\<close> does to the
  outside is a console line or a network request, with at most one request: it calls
  none of the host's callbacks (\<^verbatim>\<open>onWidgetAction\<close>, \<^verbatim>\<open>onThemeRequest\<close>,
  \<^verbatim>\<open>onResponseEnd\<close>) and sends no message. It never changes \<^verbatim>\<open>processedFacts\<close>, the
  generation, the auto-start guard or the mounted flag; after unmount it changes nothing
  at all. While the component is mounted it does itself write the error message and the
  initialising flag, and these two only. The same holds of its two halves taken apart
  (\<open>same_refs\<close>), whatever happens while the request is in flight; the half after the
  response writes console lines only.
\<close>

theorem getClientSecret_frame:
  "processedFacts (snd (snd (getClientSecret e cur net c))) = processedFacts c \<and>
   widgetInstanceKey (snd (snd (getClientSecret e cur net c))) = widgetInstanceKey c \<and>
   hasAutoStarted (snd (snd (getClientSecret e cur net c))) = hasAutoStarted c \<and>
   isMounted (snd (snd (getClientSecret e cur net c))) = isMounted c \<and>
   only_console_or_fetch (fst (snd (getClientSecret e cur net c))) \<and>
   length (fetches (fst (snd (getClientSecret e cur net c)))) \<le> 1 \<and>
   widget_actions (fst (snd (getClientSecret e cur net c))) = [] \<and>
   theme_requests (fst (snd (getClientSecret e cur net c))) = [] \<and>
   sent_messages (fst (snd (getClientSecret e cur net c))) = [] \<and>
   ResponseEnd \<notin> set (fst (snd (getClientSecret e cur net c))) \<and>
   (\<not> isMounted c \<longrightarrow> snd (snd (getClientSecret e cur net c)) = c) \<and>
   snd (snd (getClientSecret e cur net c)) =
     c\<lparr>errors_message := errors_message (snd (snd (getClientSecret e cur net c))),
       isInitializingSession :=
         isInitializingSession (snd (snd (getClientSecret e cur net c)))\<rparr> \<and>
   same_refs c (snd (snd (getClientSecret_begin e cur c))) \<and>
   only_console_or_fetch (fst (snd (getClientSecret_begin e cur c))) \<and>
   (\<not> isMounted c \<longrightarrow> snd (snd (getClientSecret_begin e cur c)) = c) \<and>
   same_refs c (snd (snd (getClientSecret_resume e cur net c))) \<and>
   only_console (fst (snd (getClientSecret_resume e cur net c))) \<and>
   (\<not> isMounted c \<longrightarrow> snd (snd (getClientSecret_resume e cur net c)) = c) \<and>
   fetches (fst (snd (getClientSecret_resume e cur net c))) = []"
proof -
  obtain res fx c' where g: "getClientSecret e cur net c = (res, fx, c')"
    by (cases "getClientSecret e cur net c")
  obtain b fx1 c1 where bg: "getClientSecret_begin e cur c = (b, fx1, c1)"
    by (cases "getClientSecret_begin e cur c")
  obtain r2 fx2 c2 where rs: "getClientSecret_resume e cur net c = (r2, fx2, c2)"
    by (cases "getClientSecret_resume e cur net c")
  from resume_frame[OF rs] have "fetches fx2 = []"
    using only_console_silent by blast
  moreover from getClientSecret_effects[of e cur net c] g
  have of: "only_console_or_fetch fx" by simp
  then have "ResponseEnd \<notin> set fx"
    by (auto simp: only_console_or_fetch_def list_all_iff)
  moreover from getClientSecret_frame_aux[OF g] have
    "c' = c\<lparr>errors_message := errors_message c',
            isInitializingSession := isInitializingSession c'\<rparr>"
    using two_fields by blast
  moreover note of begin_effects[of e cur c]
  ultimately show ?thesis
    using getClientSecret_frame_aux[OF g] begin_frame[OF bg] resume_frame[OF rs]
    by (simp add: g bg rs same_refs_def)
qed

theorem getClientSecret_frame_witness:
  "\<not> isMounted (unmount initial_controller) \<and>
   snd (snd (getClientSecret example_env None (Responded response_500)
     (unmount initial_controller))) = unmount initial_controller \<and>
   fetches (fst (snd (getClientSecret example_env None (Responded response_500)
     (unmount initial_controller)))) = [Fetch ''/api/create-session'' (Some ''wf_68e5'')]"
  using getClientSecret_frame
    [of example_env None "Responded response_500" "unmount initial_controller"]
  by (simp add: getClientSecret_def getClientSecret_begin_def getClientSecret_resume_def
      try_block_def try_catch_finally_def catch_block_def finally_block_def session_data_def
      isWorkflowConfigured_def startsWith_def example_env_def response_500_def unmount_def
      initial_controller_def Let_def)

end
